theory Spec2Isabelle
  imports Complex_Main "HOL-Library.Word" "HOL-Library.Sublist"
begin

section \<open>The upload widget of \<open>src/app/static/js/main.js\<close>\<close>

text \<open>
  The script keeps one global array, \<open>selectedFiles\<close>, and a handful of DOM elements.
  The model below is a shallow embedding: the array and every DOM property the script
  writes are fields of one record, each handler is a function from state to state, and
  the two effects that leave the page (\<open>alert\<close> and \<open>fetch\<close>) are logged in the state.
  \<open>console.log\<close> and \<open>console.error\<close> write nothing a handler reads and are left out.
\<close>

subsection \<open>Strings\<close>

text \<open>
  A JavaScript string is a sequence of UTF-16 code units: \<open>length\<close>, \<open>substring\<close>,
  \<open>endsWith\<close> and \<open>===\<close> all work on code units. \<open>ascii\<close> embeds the ASCII part of a
  literal; the other characters of the script's literals are written as code units.
\<close>

type_synonym jschar = "16 word"
type_synonym jsstring = "jschar list"

definition ascii :: "string \<Rightarrow> jsstring" where
  "ascii s = map (\<lambda>c. of_nat (of_char c)) s"

definition nl :: jsstring where
  "nl = [0x0A]"

definition spaces :: "nat \<Rightarrow> jsstring" where
  "spaces n = replicate n 0x20"

text \<open>\<open>String.prototype.endsWith(search)\<close>, without the optional end position.\<close>

definition endsWith :: "jsstring \<Rightarrow> jsstring \<Rightarrow> bool" where
  "endsWith str search =
     (length search \<le> length str \<and> drop (length str - length search) str = search)"

text \<open>
  \<open>String.prototype.substring(start, end)\<close> for integer arguments: both are clamped to
  \<open>[0, length]\<close> and swapped when \<open>start > end\<close>.
\<close>

definition substring :: "jsstring \<Rightarrow> int \<Rightarrow> int \<Rightarrow> jsstring" where
  "substring str start end' =
     (let len = int (length str);
          finalStart = min (max start 0) len;
          finalEnd = min (max end' 0) len;
          from = min finalStart finalEnd;
          to = max finalStart finalEnd
      in take (nat (to - from)) (drop (nat from) str))"

subsection \<open>Numbers as text\<close>

definition digit :: "nat \<Rightarrow> jschar" where
  "digit d = of_nat (48 + d)"

fun digits :: "nat \<Rightarrow> jsstring" where
  "digits n = (if n < 10 then [digit n] else digits (n div 10) @ [digit (n mod 10)])"

declare digits.simps [simp del]

text \<open>\<open>ToString\<close> of an integral number, as a template literal or \<open>+\<close> applies it.\<close>

definition ToString_int :: "int \<Rightarrow> jsstring" where
  "ToString_int n = (if n < 0 then ascii ''-'' @ digits (nat (- n)) else digits (nat n))"

text \<open>
  \<open>ToString\<close> of the number \<open>h / 100\<close> for an integer \<open>h\<close>: the decimal expansion of
  the quotient, without trailing zeros and without the point when it is integral
  (\<open>146 / 100\<close> prints as \<open>1.46\<close>, \<open>150 / 100\<close> as \<open>1.5\<close>, \<open>100 / 100\<close> as \<open>1\<close>).
\<close>

definition ToString_div100 :: "int \<Rightarrow> jsstring" where
  "ToString_div100 h =
     (let a = nat \<bar>h\<bar>; q = a div 100; r = a mod 100;
          sign = (if h < 0 then ascii ''-'' else [])
      in if r = 0 then sign @ digits q
         else if r mod 10 = 0 then sign @ digits q @ ascii ''.'' @ [digit (r div 10)]
         else sign @ digits q @ ascii ''.'' @ [digit (r div 10), digit (r mod 10)])"

text \<open>
  Reading an array at an index: \<open>None\<close> stands for \<open>undefined\<close>, which is what
  JavaScript gives outside \<open>0 .. length - 1\<close>; \<open>ToString_elem\<close> is the conversion that
  \<open>+\<close> applies to the element it is given.
\<close>

definition at_index :: "'a list \<Rightarrow> int \<Rightarrow> 'a option" where
  "at_index xs i = (if 0 \<le> i \<and> i < int (length xs) then Some (xs ! nat i) else None)"

definition ToString_elem :: "jsstring option \<Rightarrow> jsstring" where
  "ToString_elem v = (case v of None \<Rightarrow> ascii ''undefined'' | Some s \<Rightarrow> s)"

subsection \<open>\<open>formatFileSize\<close>\<close>

text \<open>
  \<^verbatim>\<open>
  function formatFileSize(bytes) {
      if (bytes === 0) return '0 Bytes';
      const k = 1024;
      const sizes = ['Bytes', 'KB', 'MB', 'GB'];
      const i = Math.floor(Math.log(bytes) / Math.log(k));
      return Math.round(bytes / Math.pow(k, i) * 100) / 100 + ' ' + sizes[i];
  }
  \<close>
  The argument is a file size, a natural number. \<open>Math.floor\<close> is the floor and
  \<open>Math.round\<close> (half towards plus infinity) is \<open>round\<close>; both are exact on doubles.
  The function is embedded twice. \<open>formatFileSize\<close> reads the remaining arithmetic over
  the real numbers: \<open>Math.log\<close> is \<open>ln\<close>, \<open>Math.pow\<close> is \<open>powr\<close>, and no result is
  rounded. \<open>formatFileSize_fp\<close>, further down, takes the double arithmetic as a
  parameter.
\<close>

definition sizes :: "jsstring list" where
  "sizes = [ascii ''Bytes'', ascii ''KB'', ascii ''MB'', ascii ''GB'']"

definition unit_index :: "nat \<Rightarrow> int" where
  "unit_index bytes = \<lfloor>ln (real bytes) / ln 1024\<rfloor>"

definition rounded_hundredths :: "nat \<Rightarrow> int" where
  "rounded_hundredths bytes =
     round (real bytes / (1024 powr real_of_int (unit_index bytes)) * 100)"

definition formatFileSize :: "nat \<Rightarrow> jsstring" where
  "formatFileSize bytes =
     (if bytes = 0 then ascii ''0 Bytes''
      else ToString_div100 (rounded_hundredths bytes) @ ascii '' '' @
           ToString_elem (at_index sizes (unit_index bytes)))"






subsection \<open>State\<close>

record File =
  name :: jsstring
  type_mime :: jsstring
  size_bytes :: nat

text \<open>
  The body of the POST request: the \<open>files\<close> parts in order, then \<open>target_count\<close>.
\<close>

record form_data =
  files_parts :: "File list"
  target_count :: jsstring

record state =
  selectedFiles :: "File list"
  selectedFilesDiv_innerHTML :: jsstring
  generateBtn_disabled :: bool
  targetCountInput_value :: jsstring
  progressSection_display :: jsstring
  progressFill_width :: jsstring
  progressText_textContent :: jsstring
  resultsSection_display :: jsstring
  resultsContent_innerHTML :: jsstring
  alerts :: "jsstring list"
  posted :: "form_data list"

definition alert :: "jsstring \<Rightarrow> state \<Rightarrow> state" where
  "alert message s = s\<lparr>alerts := alerts s @ [message]\<rparr>"

subsection \<open>Rendering the selection\<close>

definition file_item :: "nat \<Rightarrow> File \<Rightarrow> jsstring" where
  \<open>file_item index file =
     nl @ spaces 8 @ ascii ''<div class="file-item">'' @
     nl @ spaces 12 @ ascii ''<div class="file-info">'' @
     nl @ spaces 16 @ ascii ''<div class="file-icon">'' @ [0xD83D, 0xDCC4] @ ascii ''</div>'' @
     nl @ spaces 16 @ ascii ''<div class="file-details">'' @
     nl @ spaces 20 @ ascii ''<div class="file-name">'' @ name file @ ascii ''</div>'' @
     nl @ spaces 20 @ ascii ''<div class="file-size">'' @ formatFileSize (size_bytes file) @ ascii ''</div>'' @
     nl @ spaces 16 @ ascii ''</div>'' @
     nl @ spaces 12 @ ascii ''</div>'' @
     nl @ spaces 12 @ ascii ''<button class="file-remove" onclick="removeFile('' @ ToString_int (int index) @ ascii '')">'' @ [0x00D7] @ ascii ''</button>'' @
     nl @ spaces 8 @ ascii ''</div>'' @
     nl @ spaces 4\<close>

definition renderSelectedFiles :: "state \<Rightarrow> state" where
  "renderSelectedFiles s =
     (if length (selectedFiles s) = 0 then s\<lparr>selectedFilesDiv_innerHTML := []\<rparr>
      else s\<lparr>selectedFilesDiv_innerHTML :=
               concat (map (\<lambda>(index, file). file_item index file)
                           (enumerate 0 (selectedFiles s)))\<rparr>)"

definition updateGenerateButton :: "state \<Rightarrow> state" where
  "updateGenerateButton s = s\<lparr>generateBtn_disabled := (length (selectedFiles s) = 0)\<rparr>"

subsection \<open>\<open>addFiles\<close> and \<open>removeFile\<close>\<close>

definition is_pdf :: "File \<Rightarrow> bool" where
  "is_pdf file \<longleftrightarrow> type_mime file = ascii ''application/pdf'' \<or> endsWith (name file) (ascii ''.pdf'')"

definition is_oversized :: "File \<Rightarrow> bool" where
  "is_oversized file \<longleftrightarrow> size_bytes file > 16 * 1024 * 1024"

definition pdf_warning :: jsstring where
  "pdf_warning = [0x26A0, 0xFE0F] @ ascii '' Vui l'' @ [0x00F2] @ ascii ''ng ch'' @ [0x1ECD] @ ascii ''n file PDF!''"

definition size_warning :: "jsstring \<Rightarrow> jsstring" where
  "size_warning file_name =
     [0x26A0, 0xFE0F] @ ascii '' File qu'' @ [0x00E1] @ ascii '' l'' @ [0x1EDB] @ ascii ''n: '' @ file_name @
     nl @ ascii ''K'' @ [0x00ED] @ ascii ''ch th'' @ [0x01B0, 0x1EDB] @ ascii ''c t'' @ [0x1ED1] @ ascii ''i '' @ [0x0111] @ ascii ''a: 16MB''"

text \<open>
  The \<open>forEach\<close> of \<open>addFiles\<close>: each file is looked up by name in the array as it is at
  that moment, so a name that an earlier file of the same call has pushed is found too.
\<close>

fun push_new :: "File list \<Rightarrow> File list \<Rightarrow> File list" where
  "push_new [] selected = selected"
| "push_new (file # rest) selected =
     push_new rest
       (if find (\<lambda>f. name f = name file) selected = None then selected @ [file]
        else selected)"

definition addFiles :: "File list \<Rightarrow> state \<Rightarrow> state" where
  "addFiles files s =
     (let pdfFiles = filter is_pdf files in
      if length pdfFiles = 0 then alert pdf_warning s
      else let oversizedFiles = filter is_oversized pdfFiles in
           if length oversizedFiles > 0 then alert (size_warning (name (hd oversizedFiles))) s
           else updateGenerateButton (renderSelectedFiles
                  (s\<lparr>selectedFiles := push_new pdfFiles (selectedFiles s)\<rparr>)))"

text \<open>
  \<open>Array.prototype.splice(start, deleteCount)\<close> without inserted items: a negative
  \<open>start\<close> counts from the end of the array, and both \<open>start\<close> and the count are clamped
  to the array.
\<close>

definition splice :: "'a list \<Rightarrow> int \<Rightarrow> int \<Rightarrow> 'a list" where
  "splice xs start deleteCount =
     (let len = int (length xs);
          actualStart = (if start < 0 then max (len + start) 0 else min start len);
          actualDeleteCount = min (max deleteCount 0) (len - actualStart)
      in take (nat actualStart) xs @ drop (nat (actualStart + actualDeleteCount)) xs)"

definition removeFile :: "int \<Rightarrow> state \<Rightarrow> state" where
  "removeFile index s =
     updateGenerateButton (renderSelectedFiles
       (s\<lparr>selectedFiles := splice (selectedFiles s) index 1\<rparr>))"

subsection \<open>The response and \<open>displayResults\<close>\<close>

text \<open>
  The decoded body of \<open>POST /api/generate-testcases\<close>, with the fields the script
  reads. The flags are JSON booleans and the counts are integers; a failed item carries
  \<open>error\<close>, a successful one the other four fields, and \<open>displayResults\<close> reads only the
  fields of the branch it takes.
\<close>

record result_item =
  filename :: jsstring
  item_success :: bool
  total_test_cases :: int
  coverage_percentage :: int
  worksheet_name :: jsstring
  sheet_url :: jsstring
  error :: jsstring

record batch_response =
  success :: bool
  successful_files :: int
  total_files :: int
  results :: "result_item list"

definition result_summary :: "batch_response \<Rightarrow> jsstring" where
  \<open>result_summary data =
     ascii ''<div class="result-summary">'' @
     nl @ spaces 12 @ ascii ''<p><strong>'' @ [0x2705] @ ascii '' Th'' @ [0x00E0] @ ascii ''nh c'' @ [0x00F4] @ ascii ''ng:</strong> '' @ ToString_int (successful_files data) @ ascii ''/'' @ ToString_int (total_files data) @ ascii '' files</p>'' @
     nl @ spaces 8 @ ascii ''</div>''\<close>

definition success_item :: "result_item \<Rightarrow> jsstring" where
  \<open>success_item result =
     nl @ spaces 16 @ ascii ''<div class="result-item">'' @
     nl @ spaces 20 @ ascii ''<div class="result-filename">'' @ [0xD83D, 0xDCC4] @ ascii '' '' @ filename result @ ascii ''</div>'' @
     nl @ spaces 20 @ ascii ''<div class="result-stats">'' @
     nl @ spaces 24 @ ascii ''<div class="stat-item">'' @
     nl @ spaces 28 @ ascii ''<span class="stat-label">Test Cases</span>'' @
     nl @ spaces 28 @ ascii ''<span class="stat-value">'' @ ToString_int (total_test_cases result) @ ascii ''</span>'' @
     nl @ spaces 24 @ ascii ''</div>'' @
     nl @ spaces 24 @ ascii ''<div class="stat-item">'' @
     nl @ spaces 28 @ ascii ''<span class="stat-label">Coverage</span>'' @
     nl @ spaces 28 @ ascii ''<span class="stat-value">'' @ ToString_int (coverage_percentage result) @ ascii ''%</span>'' @
     nl @ spaces 24 @ ascii ''</div>'' @
     nl @ spaces 24 @ ascii ''<div class="stat-item">'' @
     nl @ spaces 28 @ ascii ''<span class="stat-label">Worksheet</span>'' @
     nl @ spaces 28 @ ascii ''<span class="stat-value" style="font-size: 0.9rem;">'' @ substring (worksheet_name result) 0 20 @ ascii ''...</span>'' @
     nl @ spaces 24 @ ascii ''</div>'' @
     nl @ spaces 20 @ ascii ''</div>'' @
     nl @ spaces 20 @ ascii ''<a href="'' @ sheet_url result @ ascii ''" target="_blank" class="result-link">'' @
     nl @ spaces 24 @ [0xD83D, 0xDD17] @ ascii '' M'' @ [0x1EDF] @ ascii '' Google Sheet'' @
     nl @ spaces 20 @ ascii ''</a>'' @
     nl @ spaces 16 @ ascii ''</div>'' @
     nl @ spaces 12\<close>

definition error_item :: "result_item \<Rightarrow> jsstring" where
  \<open>error_item result =
     nl @ spaces 16 @ ascii ''<div class="result-item error">'' @
     nl @ spaces 20 @ ascii ''<div class="result-filename">'' @ [0xD83D, 0xDCC4] @ ascii '' '' @ filename result @ ascii ''</div>'' @
     nl @ spaces 20 @ ascii ''<div class="error-message">'' @ [0x274C] @ ascii '' '' @ error result @ ascii ''</div>'' @
     nl @ spaces 16 @ ascii ''</div>'' @
     nl @ spaces 12\<close>

text \<open>The body of \<open>data.results.forEach\<close>: one block is appended to \<open>html\<close>.\<close>

definition append_result :: "jsstring \<Rightarrow> result_item \<Rightarrow> jsstring" where
  "append_result html result =
     (if item_success result then html @ success_item result else html @ error_item result)"

definition displayResults :: "batch_response \<Rightarrow> state \<Rightarrow> state" where
  "displayResults data s =
     (let s1 = s\<lparr>progressSection_display := ascii ''none'',
                 resultsSection_display := ascii ''block'',
                 generateBtn_disabled := False\<rparr>;
          html0 = (if success data then [] @ result_summary data else []);
          html = foldl append_result html0 (results data);
          s2 = s1\<lparr>resultsContent_innerHTML := html\<rparr>
      in if success data
         then updateGenerateButton (renderSelectedFiles (s2\<lparr>selectedFiles := []\<rparr>))
         else s2)"

subsection \<open>\<open>generateTestCases\<close>\<close>

definition updateProgress :: "int \<Rightarrow> jsstring \<Rightarrow> state \<Rightarrow> state" where
  "updateProgress percentage text s =
     s\<lparr>progressFill_width := ToString_int percentage @ ascii ''%'',
       progressText_textContent := text\<rparr>"

text \<open>
  What the network does with the request: \<open>fetch\<close> rejects (no connection), or it
  resolves and \<open>response.json()\<close> rejects (the body is not JSON), or both resolve. A
  rejection carries the \<open>message\<close> of the error it throws.
\<close>

datatype network =
  FetchRejects jsstring
| JsonRejects jsstring
| Responds batch_response

definition error_notification :: "jsstring \<Rightarrow> jsstring" where
  "error_notification message = [0x274C] @ ascii '' L'' @ [0x1ED7] @ ascii ''i: '' @ message"

text \<open>The \<open>catch\<close> block.\<close>

definition on_error :: "jsstring \<Rightarrow> state \<Rightarrow> state" where
  "on_error message s =
     (alert (error_notification message) (s\<lparr>progressSection_display := ascii ''none''\<rparr>))
       \<lparr>generateBtn_disabled := False\<rparr>"

text \<open>
  One run of the handler, from the click to the end of the timer callback or of the
  \<open>catch\<close> block, with no other handler running while it awaits. The request is logged
  in \<open>posted\<close> when \<open>fetch\<close> is called.
\<close>

definition generateTestCases :: "network \<Rightarrow> state \<Rightarrow> state" where
  "generateTestCases net s =
     (if length (selectedFiles s) = 0 then s
      else
        let s1 = s\<lparr>resultsSection_display := ascii ''none'',
                    progressSection_display := ascii ''block'',
                    generateBtn_disabled := True\<rparr>;
            s2 = updateProgress 0
                   ([0x0110] @ ascii ''ang chu'' @ [0x1EA9] @ ascii ''n b'' @ [0x1ECB] @ ascii ''...'') s1;
            formData = \<lparr>files_parts = selectedFiles s2, target_count = targetCountInput_value s2\<rparr>;
            s3 = updateProgress 20 ([0x0110] @ ascii ''ang upload files...'') s2;
            s4 = s3\<lparr>posted := posted s3 @ [formData]\<rparr>
        in case net of
             FetchRejects message \<Rightarrow> on_error message s4
           | JsonRejects message \<Rightarrow>
               on_error message
                 (updateProgress 40
                    ([0x0110] @ ascii ''ang extract text t'' @ [0x1EEB] @ ascii '' PDF...'') s4)
           | Responds data \<Rightarrow>
               displayResults data
                 (updateProgress 100 (ascii ''Ho'' @ [0x00E0] @ ascii ''n th'' @ [0x00E0] @ ascii ''nh!'')
                    (updateProgress 40
                       ([0x0110] @ ascii ''ang extract text t'' @ [0x1EEB] @ ascii '' PDF...'') s4)))"

subsection \<open>Example inputs\<close>

text \<open>
  Concrete files, states and responses at which the theorems below are instantiated.
  \<open>example_state\<close> is a page with nothing selected and both panels hidden;
  \<open>one_selected\<close> is the same page after \<open>a.pdf\<close> has been chosen.
\<close>

definition example_pdf :: File where
  "example_pdf = \<lparr>name = ascii ''a.pdf'', type_mime = ascii ''application/pdf'',
     size_bytes = 16 * 1024 * 1024\<rparr>"

definition oversized_pdf :: File where
  "oversized_pdf = \<lparr>name = ascii ''big.pdf'', type_mime = ascii ''application/pdf'',
     size_bytes = 16 * 1024 * 1024 + 1\<rparr>"

definition text_file :: File where
  "text_file = \<lparr>name = ascii ''notes.txt'', type_mime = ascii ''text/plain'', size_bytes = 1500\<rparr>"

definition example_state :: state where
  "example_state = \<lparr>selectedFiles = [], selectedFilesDiv_innerHTML = [], generateBtn_disabled = True,
     targetCountInput_value = ascii ''10'', progressSection_display = ascii ''none'',
     progressFill_width = ascii ''0%'', progressText_textContent = [],
     resultsSection_display = ascii ''none'', resultsContent_innerHTML = [],
     alerts = [], posted = []\<rparr>"

definition one_selected :: state where
  "one_selected = example_state\<lparr>selectedFiles := [example_pdf], generateBtn_disabled := False\<rparr>"

definition failed_item :: result_item where
  "failed_item = \<lparr>filename = ascii ''b.pdf'', item_success = False, total_test_cases = 0,
     coverage_percentage = 0, worksheet_name = [], sheet_url = [], error = ascii ''parse failed''\<rparr>"

definition failed_response :: batch_response where
  "failed_response = \<lparr>success = False, successful_files = 0, total_files = 1,
     results = [failed_item]\<rparr>"

definition short_item :: result_item where
  "short_item = \<lparr>filename = ascii ''a.pdf'', item_success = True, total_test_cases = 12,
     coverage_percentage = 85, worksheet_name = ascii ''Sheet1'', sheet_url = ascii ''https://x'',
     error = []\<rparr>"

definition ok_response :: batch_response where
  "ok_response = \<lparr>success = True, successful_files = 1, total_files = 1, results = [short_item]\<rparr>"

section \<open>Properties\<close>

subsection \<open>Strings and lists\<close>

lemma endsWith_iff: "endsWith str search \<longleftrightarrow> (\<exists>stem. str = stem @ search)"
proof
  assume "endsWith str search"
  then have "str = take (length str - length search) str @ search"
    by (metis append_take_drop_id endsWith_def)
  then show "\<exists>stem. str = stem @ search" ..
next
  assume "\<exists>stem. str = stem @ search"
  then show "endsWith str search" by (auto simp: endsWith_def)
qed

lemma substring_0: "0 \<le> n \<Longrightarrow> substring str 0 n = take (nat n) str"
  by (simp add: substring_def Let_def min_def max_def)

lemma sublist_skip: "sublist xs ys \<Longrightarrow> sublist xs (p @ ys)"
  by (simp add: sublist_append)

lemma sublist_here3: "sublist (a @ b @ c) (a @ b @ c @ rest)"
  by (metis append.assoc sublist_append_rightI)

lemma sublist_block:
  assumes "r \<in> set rs"
  shows "sublist (g r) (h @ concat (map g rs))"
proof -
  from assms obtain as bs where "rs = as @ r # bs" by (auto dest: split_list)
  then have "h @ concat (map g rs) = (h @ concat (map g as)) @ g r @ concat (map g bs)" by simp
  then show ?thesis by (metis sublist_appendI)
qed

lemma hd_filter:
  assumes "\<exists>x \<in> set xs. P x"
  shows "hd (filter P xs) \<in> set xs \<and> P (hd (filter P xs))"
proof -
  from assms have "filter P xs \<noteq> []" by (simp add: filter_empty_conv)
  then have "hd (filter P xs) \<in> set (filter P xs)" by (rule hd_in_set)
  then show ?thesis by simp
qed

lemma splice_beyond: "int (length xs) \<le> start \<Longrightarrow> splice xs start 1 = xs"
  by (simp add: splice_def Let_def)

subsection \<open>The messages\<close>

lemma warnings_differ: "pdf_warning \<noteq> size_warning n"
  by (simp add: pdf_warning_def size_warning_def ascii_def)

lemma sublist_name_size_warning: "sublist n (size_warning n)"
  unfolding size_warning_def by (rule sublist_append_rightI | rule sublist_skip)+

lemma sublist_message_notification: "sublist m (error_notification m)"
  unfolding error_notification_def
  by (rule sublist_append_rightI | rule sublist_order.order.refl | rule sublist_skip)+

lemma sublist_error_item: "sublist (error r) (error_item r)"
  unfolding error_item_def by (rule sublist_append_rightI | rule sublist_skip)+

lemma sublist_worksheet_success_item:
  \<open>sublist (ascii ''<span class="stat-value" style="font-size: 0.9rem;">'' @
            take 20 (worksheet_name r) @ ascii ''...</span>'')
     (success_item r)\<close>
  unfolding success_item_def
  by (simp only: substring_0 nat_numeral, (rule sublist_here3 | rule sublist_skip)+)

subsection \<open>The examples\<close>

lemma is_pdf_examples: "is_pdf example_pdf" "is_pdf oversized_pdf" "\<not> is_pdf text_file"
  by (simp_all add: is_pdf_def example_pdf_def oversized_pdf_def text_file_def endsWith_def ascii_def)

lemma is_oversized_examples: "\<not> is_oversized example_pdf" "is_oversized oversized_pdf"
  by (simp_all add: is_oversized_def example_pdf_def oversized_pdf_def)

subsection \<open>The selection under \<open>addFiles\<close>\<close>

lemma selectedFiles_alert [simp]: "selectedFiles (alert m s) = selectedFiles s"
  by (simp add: alert_def)

lemma alerts_alert [simp]: "alerts (alert m s) = alerts s @ [m]"
  by (simp add: alert_def)

lemma selectedFiles_refresh [simp]:
  "selectedFiles (updateGenerateButton (renderSelectedFiles s)) = selectedFiles s"
  by (simp add: updateGenerateButton_def renderSelectedFiles_def)

lemma alerts_refresh [simp]:
  "alerts (updateGenerateButton (renderSelectedFiles s)) = alerts s"
  by (simp add: updateGenerateButton_def renderSelectedFiles_def)

lemma find_name_None:
  "(find (\<lambda>f. name f = n) selected = None) \<longleftrightarrow> n \<notin> name ` set selected"
  by (auto simp: find_None_iff)

lemma push_new_distinct:
  "distinct (map name selected) \<Longrightarrow> distinct (map name (push_new files selected))"
  by (induction files arbitrary: selected) (auto simp: find_name_None)

lemma push_new_present:
  "name ` set files \<subseteq> name ` set selected \<Longrightarrow> push_new files selected = selected"
  by (induction files arbitrary: selected) (auto simp: find_name_None)

lemma push_new_names:
  "name ` set (push_new files selected) = name ` set selected \<union> name ` set files"
  by (induction files arbitrary: selected) (auto simp: find_name_None)

lemma push_new_appends:
  "\<exists>added. push_new files selected = selected @ added \<and> set added \<subseteq> set files"
proof (induction files arbitrary: selected)
  case Nil
  show ?case by simp
next
  case (Cons f fs)
  show ?case
  proof (cases "find (\<lambda>g. name g = name f) selected = None")
    case True
    from Cons[of "selected @ [f]"] obtain added
      where "push_new fs (selected @ [f]) = (selected @ [f]) @ added" "set added \<subseteq> set fs"
      by blast
    then have "push_new (f # fs) selected = selected @ (f # added) \<and>
        set (f # added) \<subseteq> set (f # fs)"
      using True by auto
    then show ?thesis by blast
  next
    case False
    from Cons[of selected] obtain added
      where "push_new fs selected = selected @ added" "set added \<subseteq> set fs" by blast
    then have "push_new (f # fs) selected = selected @ added \<and> set added \<subseteq> set (f # fs)"
      using False by auto
    then show ?thesis by blast
  qed
qed

lemma selectedFiles_addFiles:
  "selectedFiles (addFiles files s) =
     (if filter is_pdf files = [] \<or> filter is_oversized (filter is_pdf files) \<noteq> []
      then selectedFiles s
      else push_new (filter is_pdf files) (selectedFiles s))"
  by (simp add: addFiles_def Let_def)

lemma addFiles_distinct:
  "distinct (map name (selectedFiles s)) \<Longrightarrow>
   distinct (map name (selectedFiles (addFiles files s)))"
  by (simp add: selectedFiles_addFiles push_new_distinct)

text \<open>
  C1. The names in the selection stay pairwise different through any sequence of
  \<open>addFiles\<close> calls, whatever the batches are: the property holds of the empty array the
  script starts with, and every call keeps it. A call in which every file has a name that
  is already selected leaves the selection, and so its length, as it was.
\<close>

theorem addFiles_unique_names:
  "(distinct (map name (selectedFiles s)) \<longrightarrow>
      distinct (map name (selectedFiles (foldl (\<lambda>s files. addFiles files s) s batches)))) \<and>
   (name ` set files \<subseteq> name ` set (selectedFiles s) \<longrightarrow>
      selectedFiles (addFiles files s) = selectedFiles s \<and>
      length (selectedFiles (addFiles files s)) = length (selectedFiles s))"
proof (intro conjI impI)
  assume "distinct (map name (selectedFiles s))"
  then show "distinct (map name (selectedFiles (foldl (\<lambda>s files. addFiles files s) s batches)))"
    by (induction batches arbitrary: s) (simp_all add: addFiles_distinct)
next
  assume a: "name ` set files \<subseteq> name ` set (selectedFiles s)"
  then have "name ` set (filter is_pdf files) \<subseteq> name ` set (selectedFiles s)" by auto
  then show "selectedFiles (addFiles files s) = selectedFiles s"
    by (simp add: selectedFiles_addFiles push_new_present)
  then show "length (selectedFiles (addFiles files s)) = length (selectedFiles s)" by simp
qed

theorem addFiles_unique_names_witness:
  "distinct (map name (selectedFiles example_state)) \<and>
   distinct (map name (selectedFiles
     (foldl (\<lambda>s files. addFiles files s) example_state
        [[example_pdf, example_pdf], [example_pdf]]))) \<and>
   name ` set [example_pdf] \<subseteq> name ` set (selectedFiles one_selected) \<and>
   length (selectedFiles (addFiles [example_pdf] one_selected)) = 1"
  using addFiles_unique_names[of example_state "[[example_pdf, example_pdf], [example_pdf]]" "[]"]
    addFiles_unique_names[of one_selected "[]" "[example_pdf]"]
  by (simp add: example_state_def one_selected_def)

text \<open>
  C4. When a PDF candidate of the call is larger than 16 MiB, the call changes nothing but
  the alert log: it reports the first such file by name, and the selection and every DOM
  field stay as they were, so the valid files of the call are not appended either.
\<close>

theorem addFiles_oversized_aborts:
  assumes "\<exists>f \<in> set files. is_pdf f \<and> 16 * 1024 * 1024 < size_bytes f"
  shows "addFiles files s =
           s\<lparr>alerts := alerts s @
                [size_warning (name (hd (filter is_oversized (filter is_pdf files))))]\<rparr> \<and>
         hd (filter is_oversized (filter is_pdf files)) \<in> set files \<and>
         is_pdf (hd (filter is_oversized (filter is_pdf files))) \<and>
         16 * 1024 * 1024 < size_bytes (hd (filter is_oversized (filter is_pdf files))) \<and>
         sublist (name (hd (filter is_oversized (filter is_pdf files))))
           (size_warning (name (hd (filter is_oversized (filter is_pdf files))))) \<and>
         selectedFiles (addFiles files s) = selectedFiles s"
proof -
  from assms have "\<exists>f \<in> set (filter is_pdf files). is_oversized f"
    by (auto simp: is_oversized_def)
  then have mo: "hd (filter is_oversized (filter is_pdf files)) \<in> set (filter is_pdf files) \<and>
      is_oversized (hd (filter is_oversized (filter is_pdf files)))"
    by (rule hd_filter)
  then have m: "hd (filter is_oversized (filter is_pdf files)) \<in> set files"
      "is_pdf (hd (filter is_oversized (filter is_pdf files)))"
    and o: "16 * 1024 * 1024 < size_bytes (hd (filter is_oversized (filter is_pdf files)))"
    by (simp_all add: is_oversized_def)
  from m have ne: "filter is_pdf files \<noteq> []" by (auto simp: filter_empty_conv)
  from mo have ne2: "filter is_oversized (filter is_pdf files) \<noteq> []"
    by (metis filter_empty_conv)
  have "addFiles files s =
          s\<lparr>alerts := alerts s @
               [size_warning (name (hd (filter is_oversized (filter is_pdf files))))]\<rparr>"
    using ne ne2 by (simp add: addFiles_def Let_def alert_def)
  with m o sublist_name_size_warning show ?thesis by simp
qed

theorem addFiles_oversized_aborts_witness:
  "(\<exists>f \<in> set [text_file, example_pdf, oversized_pdf]. is_pdf f \<and> 16 * 1024 * 1024 < size_bytes f) \<and>
   addFiles [text_file, example_pdf, oversized_pdf] one_selected =
     one_selected\<lparr>alerts := [size_warning (ascii ''big.pdf'')]\<rparr>"
proof -
  have h: "\<exists>f \<in> set [text_file, example_pdf, oversized_pdf].
             is_pdf f \<and> 16 * 1024 * 1024 < size_bytes f"
    using is_pdf_examples is_oversized_examples by (simp add: is_oversized_def)
  have "filter is_oversized (filter is_pdf [text_file, example_pdf, oversized_pdf]) = [oversized_pdf]"
    using is_pdf_examples is_oversized_examples by simp
  with addFiles_oversized_aborts[OF h, of one_selected] h show ?thesis
    by (simp add: oversized_pdf_def one_selected_def example_state_def)
qed

text \<open>
  C5, as stated, says that a warning is issued only when no candidate is a PDF, and that a
  batch with a valid PDF in it is taken without a warning. A batch of a text file, a valid
  PDF and a PDF of 16 MiB + 1 bytes has a PDF in it, yet the call warns (about the size)
  and keeps nothing, the valid PDF included.
\<close>

theorem addFiles_warning_counterexample:
  "is_pdf example_pdf \<and> \<not> is_oversized example_pdf \<and>
   filter is_pdf [text_file, example_pdf, oversized_pdf] \<noteq> [] \<and>
   alerts example_state = [] \<and>
   alerts (addFiles [text_file, example_pdf, oversized_pdf] example_state)
     = [size_warning (ascii ''big.pdf'')] \<and>
   selectedFiles (addFiles [text_file, example_pdf, oversized_pdf] example_state) = []"
  using is_pdf_examples is_oversized_examples
  by (simp add: addFiles_def Let_def alert_def example_state_def oversized_pdf_def)

text \<open>
  C5, amended. A candidate passes the filter exactly when its MIME type is
  \<open>application/pdf\<close> or its name ends in \<open>.pdf\<close>. The warning that asks for a PDF is
  issued, with no other change of the state, exactly when no candidate passes. When some
  candidate passes and no passing candidate is larger than 16 MiB, no warning at all is
  issued, the files that do not pass are dropped, and the selection grows at its end by
  passing candidates only, so that afterwards the selected names are the old ones and
  those of the passing candidates.
\<close>

theorem addFiles_pdf_filter:
  "(is_pdf f \<longleftrightarrow>
      type_mime f = ascii ''application/pdf'' \<or> (\<exists>stem. name f = stem @ ascii ''.pdf'')) \<and>
   (filter is_pdf files = [] \<longrightarrow> addFiles files s = s\<lparr>alerts := alerts s @ [pdf_warning]\<rparr>) \<and>
   (alerts (addFiles files s) = alerts s @ [pdf_warning] \<longleftrightarrow> filter is_pdf files = []) \<and>
   (filter is_pdf files \<noteq> [] \<and> (\<forall>f \<in> set files. is_pdf f \<longrightarrow> \<not> is_oversized f) \<longrightarrow>
      alerts (addFiles files s) = alerts s \<and>
      selectedFiles (addFiles files s) = push_new (filter is_pdf files) (selectedFiles s) \<and>
      (\<exists>added. selectedFiles (addFiles files s) = selectedFiles s @ added \<and>
               set added \<subseteq> {f \<in> set files. is_pdf f}) \<and>
      name ` set (selectedFiles (addFiles files s)) =
        name ` set (selectedFiles s) \<union> name ` {f \<in> set files. is_pdf f})"
proof (intro conjI impI)
  show "is_pdf f \<longleftrightarrow>
      type_mime f = ascii ''application/pdf'' \<or> (\<exists>stem. name f = stem @ ascii ''.pdf'')"
    by (simp add: is_pdf_def endsWith_iff)
next
  assume "filter is_pdf files = []"
  then show "addFiles files s = s\<lparr>alerts := alerts s @ [pdf_warning]\<rparr>"
    by (simp add: addFiles_def alert_def)
next
  show "alerts (addFiles files s) = alerts s @ [pdf_warning] \<longleftrightarrow> filter is_pdf files = []"
    using warnings_differ[symmetric] by (auto simp: addFiles_def Let_def)
next
  assume a: "filter is_pdf files \<noteq> [] \<and> (\<forall>f \<in> set files. is_pdf f \<longrightarrow> \<not> is_oversized f)"
  then have no: "filter is_oversized (filter is_pdf files) = []"
    by (auto simp: filter_empty_conv)
  from a no show "alerts (addFiles files s) = alerts s" by (simp add: addFiles_def)
  from a no show sel:
    "selectedFiles (addFiles files s) = push_new (filter is_pdf files) (selectedFiles s)"
    by (simp add: addFiles_def)
  from push_new_appends[of "filter is_pdf files" "selectedFiles s"]
  show "\<exists>added. selectedFiles (addFiles files s) = selectedFiles s @ added \<and>
               set added \<subseteq> {f \<in> set files. is_pdf f}"
    unfolding sel by auto
  show "name ` set (selectedFiles (addFiles files s)) =
        name ` set (selectedFiles s) \<union> name ` {f \<in> set files. is_pdf f}"
    unfolding sel push_new_names by auto
qed

theorem addFiles_pdf_filter_witness:
  "filter is_pdf [text_file] = [] \<and>
   addFiles [text_file] example_state = example_state\<lparr>alerts := [pdf_warning]\<rparr> \<and>
   filter is_pdf [text_file, example_pdf] = [example_pdf] \<and>
   \<not> is_oversized example_pdf \<and>
   alerts (addFiles [text_file, example_pdf] example_state) = [] \<and>
   selectedFiles (addFiles [text_file, example_pdf] example_state) = [example_pdf]"
proof -
  have h1: "filter is_pdf [text_file] = []" using is_pdf_examples by simp
  have h2: "filter is_pdf [text_file, example_pdf] = [example_pdf]" using is_pdf_examples by simp
  have h3: "\<forall>f \<in> set [text_file, example_pdf]. is_pdf f \<longrightarrow> \<not> is_oversized f"
    using is_pdf_examples is_oversized_examples by simp
  show ?thesis
    using addFiles_pdf_filter[of text_file "[text_file]" example_state]
      addFiles_pdf_filter[of text_file "[text_file, example_pdf]" example_state] h1 h2 h3
      is_oversized_examples
    by (simp add: example_state_def)
qed

text \<open>
  C6. The limit is exact. A PDF of 16 * 1024 * 1024 + 1 bytes, offered alone, is refused:
  the call only reports it. A PDF of 16 * 1024 * 1024 bytes raises no warning and, unless
  its name is selected already, is appended to the selection.
\<close>

theorem size_limit_boundary:
  assumes "is_pdf f"
  shows "(size_bytes f = 16 * 1024 * 1024 + 1 \<longrightarrow>
            addFiles [f] s = s\<lparr>alerts := alerts s @ [size_warning (name f)]\<rparr>) \<and>
         (size_bytes f = 16 * 1024 * 1024 \<longrightarrow>
            alerts (addFiles [f] s) = alerts s \<and>
            (name f \<notin> name ` set (selectedFiles s) \<longrightarrow>
               selectedFiles (addFiles [f] s) = selectedFiles s @ [f]))"
  using assms by (simp add: addFiles_def Let_def alert_def is_oversized_def find_name_None)

theorem size_limit_boundary_witness:
  "is_pdf oversized_pdf \<and> size_bytes oversized_pdf = 16 * 1024 * 1024 + 1 \<and>
   addFiles [oversized_pdf] example_state =
     example_state\<lparr>alerts := [size_warning (ascii ''big.pdf'')]\<rparr> \<and>
   is_pdf example_pdf \<and> size_bytes example_pdf = 16 * 1024 * 1024 \<and>
   name example_pdf \<notin> name ` set (selectedFiles example_state) \<and>
   alerts (addFiles [example_pdf] example_state) = [] \<and>
   selectedFiles (addFiles [example_pdf] example_state) = [example_pdf]"
  using size_limit_boundary[OF is_pdf_examples(2), of example_state]
    size_limit_boundary[OF is_pdf_examples(1), of example_state] is_pdf_examples
  by (simp add: example_state_def oversized_pdf_def example_pdf_def)

subsection \<open>\<open>removeFile\<close>\<close>

text \<open>
  C7, as stated, takes a negative index for a no-op. \<open>splice\<close> counts a negative start
  from the end of the array: \<open>removeFile(-1)\<close> on a selection of one file empties it.
\<close>

theorem removeFile_negative_counterexample:
  "(- 1 :: int) < 0 \<and> selectedFiles one_selected = [example_pdf] \<and>
   selectedFiles (removeFile (- 1) one_selected) = []"
  by (simp add: removeFile_def splice_def one_selected_def)

text \<open>
  C7, amended. For every index at or beyond the current length of the selection,
  \<open>removeFile\<close> returns (the model has no failing branch, as \<open>splice\<close> has none) and
  leaves the selection as it was.
\<close>

theorem removeFile_beyond_length:
  assumes "int (length (selectedFiles s)) \<le> index"
  shows "selectedFiles (removeFile index s) = selectedFiles s"
  using assms by (simp add: removeFile_def splice_beyond)

theorem removeFile_beyond_length_witness:
  "int (length (selectedFiles one_selected)) \<le> 1 \<and>
   selectedFiles (removeFile 1 one_selected) = [example_pdf]"
  using removeFile_beyond_length[of one_selected 1] by (simp add: one_selected_def)

subsection \<open>\<open>formatFileSize\<close>\<close>

text \<open>
  The unit index is the exponent of the largest power of 1024 that does not exceed the
  byte count, and the rounded number of hundredths is an integer quotient.
\<close>

lemma unit_index_eq:
  "1024 ^ n \<le> bytes \<Longrightarrow> bytes < 1024 ^ (n + 1) \<Longrightarrow> unit_index bytes = int n"
  using floor_log_nat_eq_if[of 1024 n bytes] by (simp add: unit_index_def log_def)

lemma unit_index_bounds:
  assumes "0 < bytes"
  shows "0 \<le> unit_index bytes \<and> 1024 ^ nat (unit_index bytes) \<le> bytes \<and>
         bytes < 1024 ^ (nat (unit_index bytes) + 1)"
proof -
  have "0 \<le> ln (real bytes)" using assms by simp
  then have "0 \<le> ln (real bytes) / ln 1024" by simp
  then have nonneg: "0 \<le> unit_index bytes" by (simp add: unit_index_def)
  then have "\<lfloor>log (real 1024) (real bytes)\<rfloor> = int (nat (unit_index bytes))"
    by (simp add: unit_index_def log_def)
  then have "1024 ^ nat (unit_index bytes) \<le> bytes \<and> bytes < 1024 ^ (nat (unit_index bytes) + 1)"
    using floor_log_nat_eq_powr_iff[of 1024 bytes "nat (unit_index bytes)"] assms by simp
  with nonneg show ?thesis by simp
qed

lemma rounded_hundredths_eq:
  assumes "unit_index bytes = int n"
  shows "rounded_hundredths bytes = (200 * int bytes + 1024 ^ n) div (2 * 1024 ^ n)"
proof -
  have "real bytes / (1024 powr real_of_int (unit_index bytes)) * 100 + 1 / 2
        = real_of_int (200 * int bytes + 1024 ^ n) / real_of_int (2 * 1024 ^ n)"
    using assms by (simp add: powr_realpow field_simps)
  then show ?thesis
    unfolding rounded_hundredths_def round_def
    by (simp only: floor_divide_of_int_eq)
qed

lemma unit_index_ge_4:
  assumes "1024 ^ 4 \<le> bytes"
  shows "4 \<le> unit_index bytes"
proof -
  have "real ((1024::nat) ^ 4) \<le> real bytes" using assms by (simp only: of_nat_le_iff)
  then have le: "(1024::real) ^ 4 \<le> real bytes" by simp
  have e: "ln ((1024::real) ^ 4) = 4 * ln 1024" by (subst ln_realpow) simp_all
  have "ln ((1024::real) ^ 4) \<le> ln (real bytes)"
    by (subst ln_le_cancel_iff) (use le in simp_all)
  then have "4 * ln (1024::real) \<le> ln (real bytes)" unfolding e .
  then have "4 \<le> ln (real bytes) / ln 1024" by (simp add: le_divide_eq)
  then show ?thesis by (simp add: unit_index_def le_floor_iff)
qed

text \<open>
  C8. \<open>formatFileSize(0)\<close> is \<open>0 Bytes\<close>, \<open>formatFileSize(1024)\<close> is \<open>1 KB\<close> and
  \<open>formatFileSize(1500)\<close> is \<open>1.46 KB\<close>.
\<close>

theorem formatFileSize_examples:
  "formatFileSize 0 = ascii ''0 Bytes'' \<and>
   formatFileSize 1024 = ascii ''1 KB'' \<and>
   formatFileSize 1500 = ascii ''1.46 KB''"
proof (intro conjI)
  show "formatFileSize 0 = ascii ''0 Bytes''" by (simp add: formatFileSize_def)
  have i1: "unit_index 1024 = 1" using unit_index_eq[of 1 1024] by simp
  have r1: "rounded_hundredths 1024 = 100" using rounded_hundredths_eq[of 1024 1] i1 by simp
  show "formatFileSize 1024 = ascii ''1 KB''"
    by (simp add: formatFileSize_def i1 r1 ToString_div100_def at_index_def sizes_def
        ToString_elem_def digits.simps digit_def ascii_def)
  have i2: "unit_index 1500 = 1" using unit_index_eq[of 1 1500] by simp
  have r2: "rounded_hundredths 1500 = 146" using rounded_hundredths_eq[of 1500 1] i2 by simp
  show "formatFileSize 1500 = ascii ''1.46 KB''"
    by (simp add: formatFileSize_def i2 r2 ToString_div100_def at_index_def sizes_def
        ToString_elem_def digits.simps digit_def ascii_def)
qed





subsection \<open>\<open>displayResults\<close>\<close>

lemma foldl_append_result:
  "foldl append_result html rs =
     html @ concat (map (\<lambda>r. if item_success r then success_item r else error_item r) rs)"
  by (induction rs arbitrary: html) (simp_all add: append_result_def)

lemma resultsContent_displayResults:
  "resultsContent_innerHTML (displayResults data s) =
     (if success data then result_summary data else []) @
     concat (map (\<lambda>r. if item_success r then success_item r else error_item r) (results data))"
  by (simp add: displayResults_def Let_def updateGenerateButton_def renderSelectedFiles_def
      foldl_append_result)

lemma rendered_item:
  assumes "r \<in> set (results data)"
  shows "sublist (if item_success r then success_item r else error_item r)
           (resultsContent_innerHTML (displayResults data s))"
  unfolding resultsContent_displayResults
  using sublist_block[OF assms, of "\<lambda>r. if item_success r then success_item r else error_item r"]
  by simp

lemma displayResults_selection:
  "selectedFiles (displayResults data s) = (if success data then [] else selectedFiles s)"
  "generateBtn_disabled (displayResults data s) = success data"
  by (simp_all add: displayResults_def Let_def updateGenerateButton_def renderSelectedFiles_def)

text \<open>
  C2. After \<open>displayResults\<close> the selection is empty with the submit button disabled
  exactly when the \<open>success\<close> flag of the response is true. When the flag is false the
  selection is what it was. The block of every failed item, and with it the item's error
  message, is part of the rendered results.
\<close>

theorem displayResults_clears_iff_success:
  "((selectedFiles (displayResults data s) = [] \<and> generateBtn_disabled (displayResults data s))
      \<longleftrightarrow> success data) \<and>
   (\<not> success data \<longrightarrow> selectedFiles (displayResults data s) = selectedFiles s) \<and>
   (\<forall>r \<in> set (results data). \<not> item_success r \<longrightarrow>
      sublist (error_item r) (resultsContent_innerHTML (displayResults data s)) \<and>
      sublist (error r) (resultsContent_innerHTML (displayResults data s)))"
proof (intro conjI ballI impI)
  show "(selectedFiles (displayResults data s) = [] \<and> generateBtn_disabled (displayResults data s))
      \<longleftrightarrow> success data"
    by (simp add: displayResults_selection)
next
  assume "\<not> success data"
  then show "selectedFiles (displayResults data s) = selectedFiles s"
    by (simp add: displayResults_selection)
next
  fix r assume r: "r \<in> set (results data)" "\<not> item_success r"
  show b: "sublist (error_item r) (resultsContent_innerHTML (displayResults data s))"
    using rendered_item[OF r(1), of s] r(2) by simp
  show "sublist (error r) (resultsContent_innerHTML (displayResults data s))"
    using sublist_error_item b by (rule sublist_order.order.trans)
qed

theorem displayResults_clears_iff_success_witness:
  "\<not> success failed_response \<and> failed_item \<in> set (results failed_response) \<and>
   \<not> item_success failed_item \<and>
   selectedFiles (displayResults failed_response one_selected) = [example_pdf] \<and>
   sublist (ascii ''parse failed'')
     (resultsContent_innerHTML (displayResults failed_response one_selected)) \<and>
   success ok_response \<and>
   selectedFiles (displayResults ok_response one_selected) = [] \<and>
   generateBtn_disabled (displayResults ok_response one_selected)"
  using displayResults_clears_iff_success[of failed_response one_selected]
    displayResults_clears_iff_success[of ok_response one_selected]
  by (simp add: failed_response_def failed_item_def ok_response_def one_selected_def)

text \<open>
  C10. For every successful item the rendered results hold the worksheet cell with the
  first 20 code units of \<open>worksheet_name\<close> followed by three dots, whatever the length of
  the name: a name of 20 code units or fewer is shown whole, with the dots after it.
\<close>

theorem worksheet_name_ellipsis:
  \<open>\<forall>r \<in> set (results data). item_success r \<longrightarrow>
     sublist (ascii ''<span class="stat-value" style="font-size: 0.9rem;">'' @
              take 20 (worksheet_name r) @ ascii ''...</span>'')
       (resultsContent_innerHTML (displayResults data s)) \<and>
     (length (worksheet_name r) \<le> 20 \<longrightarrow>
        sublist (ascii ''<span class="stat-value" style="font-size: 0.9rem;">'' @
                 worksheet_name r @ ascii ''...</span>'')
          (resultsContent_innerHTML (displayResults data s)))\<close>
proof (intro ballI impI conjI)
  fix r assume r: "r \<in> set (results data)" "item_success r"
  have "sublist (success_item r) (resultsContent_innerHTML (displayResults data s))"
    using rendered_item[OF r(1), of s] r(2) by simp
  with sublist_worksheet_success_item[of r]
  show t: \<open>sublist (ascii ''<span class="stat-value" style="font-size: 0.9rem;">'' @
              take 20 (worksheet_name r) @ ascii ''...</span>'')
       (resultsContent_innerHTML (displayResults data s))\<close>
    by (rule sublist_order.order.trans)
  assume "length (worksheet_name r) \<le> 20"
  with t show \<open>sublist (ascii ''<span class="stat-value" style="font-size: 0.9rem;">'' @
                 worksheet_name r @ ascii ''...</span>'')
          (resultsContent_innerHTML (displayResults data s))\<close>
    by simp
qed

theorem worksheet_name_ellipsis_witness:
  \<open>short_item \<in> set (results ok_response) \<and> item_success short_item \<and>
   length (worksheet_name short_item) \<le> 20 \<and>
   sublist (ascii ''<span class="stat-value" style="font-size: 0.9rem;">'' @
            ascii ''Sheet1'' @ ascii ''...</span>'')
     (resultsContent_innerHTML (displayResults ok_response one_selected))\<close>
  using worksheet_name_ellipsis[of ok_response one_selected]
  by (simp add: ok_response_def short_item_def ascii_def)

subsection \<open>\<open>generateTestCases\<close>\<close>

text \<open>
  C3. When a submission is made (the selection is not empty) and the request throws,
  at \<open>fetch\<close> or at \<open>response.json()\<close>, the handler ends with the progress panel hidden,
  one more alert, which carries the message of the error, the submit button enabled and
  the selection as it was.
\<close>

theorem generateTestCases_request_throws:
  assumes "selectedFiles s \<noteq> []"
    and "net = FetchRejects message \<or> net = JsonRejects message"
  shows "progressSection_display (generateTestCases net s) = ascii ''none'' \<and>
         alerts (generateTestCases net s) = alerts s @ [error_notification message] \<and>
         sublist message (error_notification message) \<and>
         \<not> generateBtn_disabled (generateTestCases net s) \<and>
         selectedFiles (generateTestCases net s) = selectedFiles s"
  using assms sublist_message_notification[of message]
  by (auto simp: generateTestCases_def on_error_def alert_def updateProgress_def Let_def)

theorem generateTestCases_request_throws_witness:
  "selectedFiles one_selected \<noteq> [] \<and>
   alerts (generateTestCases (FetchRejects (ascii ''Failed to fetch'')) one_selected)
     = [error_notification (ascii ''Failed to fetch'')] \<and>
   \<not> generateBtn_disabled
       (generateTestCases (JsonRejects (ascii ''Unexpected token'')) one_selected) \<and>
   selectedFiles (generateTestCases (JsonRejects (ascii ''Unexpected token'')) one_selected)
     = [example_pdf]"
proof -
  have h: "selectedFiles one_selected \<noteq> []" by (simp add: one_selected_def)
  show ?thesis
    using h
      generateTestCases_request_throws[OF h,
        of "FetchRejects (ascii ''Failed to fetch'')" "ascii ''Failed to fetch''"]
      generateTestCases_request_throws[OF h,
        of "JsonRejects (ascii ''Unexpected token'')" "ascii ''Unexpected token''"]
    by (simp add: one_selected_def example_state_def)
qed

end
